theory Spec2Isabelle
  imports Complex_Main "HOL-Library.AList" "HOL-Library.Product_Lexorder"
begin

section \<open>The relational schema (drizzle/schema)\<close>

text \<open>
  The tables of the MySQL schema, one record per row type. A \<open>decimal\<close> column is an exact
  rational, a nullable column an \<open>option\<close>, a \<open>timestamp\<close> a number of milliseconds.
  Field names are the column names, prefixed by the table they belong to; the bookkeeping
  columns \<open>createdAt\<close> and \<open>updatedAt\<close> that no query reads are left out.
\<close>

datatype TrafficType = Video | Voice | File | Background | Unknown

datatype Severity = Info | Warning | Critical

record TrafficLog =
  log_id :: nat
  log_timestamp :: nat
  log_sourceIp :: string
  log_destinationIp :: string
  log_sourcePort :: "int option"
  log_destinationPort :: "int option"
  log_protocol :: string
  log_trafficType :: TrafficType
  log_packetSize :: int
  log_throughput :: "rat option"
  log_priority :: "int option"

record Prediction =
  pred_id :: nat
  pred_timestamp :: nat
  pred_trafficType :: TrafficType
  pred_predictedBandwidth :: rat
  pred_confidence :: rat
  pred_actualBandwidth :: "rat option"
  pred_error :: "rat option"

record QosRuleRow =
  rule_id :: nat
  rule_trafficType :: TrafficType
  rule_priority :: int
  rule_minBandwidth :: rat
  rule_maxBandwidth :: rat
  rule_dscp :: "int option"
  rule_enabled :: bool

record NetworkInterface =
  if_id :: nat
  if_name :: string
  if_ipAddress :: "string option"
  if_totalBandwidth :: "rat option"
  if_currentUsage :: "rat option"
  if_isActive :: bool

record ActiveFlow =
  flow_id :: nat
  flow_sourceIp :: string
  flow_destinationIp :: string
  flow_protocol :: string
  flow_trafficType :: TrafficType
  flow_currentBandwidth :: rat
  flow_allocatedBandwidth :: "rat option"
  flow_packetCount :: "int option"
  flow_byteCount :: "int option"
  flow_startTime :: nat
  flow_lastSeen :: nat

record SystemAlert =
  alert_id :: nat
  alert_severity :: Severity
  alert_title :: string
  alert_message :: string
  alert_relatedFlowId :: "nat option"
  alert_resolved :: bool
  alert_createdAt :: nat

record Tables =
  trafficLogs :: "TrafficLog list"
  predictions :: "Prediction list"
  qosRules :: "QosRuleRow list"
  networkInterfaces :: "NetworkInterface list"
  activeFlows :: "ActiveFlow list"
  systemAlerts :: "SystemAlert list"

fun typeName :: "TrafficType \<Rightarrow> string" where
  "typeName Video = ''video''"
| "typeName Voice = ''voice''"
| "typeName File = ''file''"
| "typeName Background = ''background''"
| "typeName Unknown = ''unknown''"

section \<open>The database module (db.ts)\<close>

text \<open>
  The module keeps one variable, \<open>_db\<close>, the drizzle instance or null. The query engine
  behind the instance is not part of the source: a \<open>select\<close> is a list operation on the
  server's tables (\<open>orderBy(col)\<close> sorts ascending, \<open>orderBy(desc(col))\<close> descending,
  \<open>limit\<close> and \<open>offset\<close> are \<open>take\<close> and \<open>drop\<close>), and a statement sent to the
  server either answers or rejects. The field \<open>faults\<close> schedules the rejections: each
  statement consumes one entry, and \<open>True\<close> makes that statement reject.
\<close>

datatype error = QueryFailed

type_synonym Drizzle = string

record ResultSetHeader =
  affectedRows :: nat

record DbModule =
  db_instance :: "Drizzle option"
  DATABASE_URL :: "string option"
  drizzle :: "string \<Rightarrow> Drizzle option"
  mysql :: Tables
  faults :: "bool list"

text \<open>
  \<open>getDb\<close>: the instance is created lazily, only when it is missing and the environment
  variable is a non-empty string; a constructor that throws (\<open>drizzle url = None\<close>)
  leaves the variable null.
\<close>

definition getDb :: "DbModule \<Rightarrow> Drizzle option \<times> DbModule" where
  "getDb st =
     (if db_instance st = None \<and> DATABASE_URL st \<noteq> None \<and> DATABASE_URL st \<noteq> Some []
      then (let h = drizzle st (the (DATABASE_URL st)) in (h, st\<lparr>db_instance := h\<rparr>))
      else (db_instance st, st))"

definition statement :: "(Tables \<Rightarrow> 'a \<times> Tables) \<Rightarrow> DbModule \<Rightarrow> (error + 'a) \<times> DbModule" where
  "statement q st =
     (case faults st of
        [] \<Rightarrow> (Inr (fst (q (mysql st))), st\<lparr>mysql := snd (q (mysql st))\<rparr>)
      | f # fs \<Rightarrow>
          (if f then (Inl QueryFailed, st\<lparr>faults := fs\<rparr>)
           else (Inr (fst (q (mysql st))), st\<lparr>mysql := snd (q (mysql st)), faults := fs\<rparr>)))"

definition select :: "(Tables \<Rightarrow> 'a) \<Rightarrow> DbModule \<Rightarrow> (error + 'a) \<times> DbModule" where
  "select q = statement (\<lambda>t. (q t, t))"

definition orderBy :: "('a \<Rightarrow> 'k::linorder) \<Rightarrow> 'a list \<Rightarrow> 'a list" where
  "orderBy col rows = sort_key col rows"

definition orderBy_desc :: "('a \<Rightarrow> 'k::linorder) \<Rightarrow> 'a list \<Rightarrow> 'a list" where
  "orderBy_desc col rows = rev (sort_key col rows)"

definition getTrafficLogs :: "nat \<Rightarrow> nat \<Rightarrow> DbModule \<Rightarrow> (error + TrafficLog list) \<times> DbModule" where
  "getTrafficLogs limit offset st =
     (case getDb st of
        (None, st') \<Rightarrow> (Inr [], st')
      | (Some db, st') \<Rightarrow>
          select (\<lambda>t. take limit (drop offset (orderBy_desc log_timestamp (trafficLogs t)))) st')"

definition getActiveFlows :: "DbModule \<Rightarrow> (error + ActiveFlow list) \<times> DbModule" where
  "getActiveFlows st =
     (case getDb st of
        (None, st') \<Rightarrow> (Inr [], st')
      | (Some db, st') \<Rightarrow> select (\<lambda>t. orderBy_desc flow_lastSeen (activeFlows t)) st')"

definition getTrafficByType :: "string \<Rightarrow> DbModule \<Rightarrow> (error + TrafficLog list) \<times> DbModule" where
  "getTrafficByType ty st =
     (case getDb st of
        (None, st') \<Rightarrow> (Inr [], st')
      | (Some db, st') \<Rightarrow>
          select (\<lambda>t. take 100 (orderBy_desc log_timestamp
                    (filter (\<lambda>r. typeName (log_trafficType r) = ty) (trafficLogs t)))) st')"

definition getPredictions :: "string option \<Rightarrow> nat \<Rightarrow> DbModule \<Rightarrow> (error + Prediction list) \<times> DbModule" where
  "getPredictions ty limit st =
     (case getDb st of
        (None, st') \<Rightarrow> (Inr [], st')
      | (Some db, st') \<Rightarrow>
          (if ty \<noteq> None \<and> ty \<noteq> Some []
           then select (\<lambda>t. take limit (orderBy_desc pred_timestamp
                    (filter (\<lambda>r. typeName (pred_trafficType r) = the ty) (predictions t)))) st'
           else select (\<lambda>t. take limit (orderBy_desc pred_timestamp (predictions t))) st'))"

definition getQosRules :: "DbModule \<Rightarrow> (error + QosRuleRow list) \<times> DbModule" where
  "getQosRules st =
     (case getDb st of
        (None, st') \<Rightarrow> (Inr [], st')
      | (Some db, st') \<Rightarrow> select (\<lambda>t. orderBy rule_priority (qosRules t)) st')"

definition getNetworkInterfaces :: "DbModule \<Rightarrow> (error + NetworkInterface list) \<times> DbModule" where
  "getNetworkInterfaces st =
     (case getDb st of
        (None, st') \<Rightarrow> (Inr [], st')
      | (Some db, st') \<Rightarrow> select networkInterfaces st')"

definition getSystemAlerts :: "bool \<Rightarrow> nat \<Rightarrow> DbModule \<Rightarrow> (error + SystemAlert list) \<times> DbModule" where
  "getSystemAlerts unresolved limit st =
     (case getDb st of
        (None, st') \<Rightarrow> (Inr [], st')
      | (Some db, st') \<Rightarrow>
          (if unresolved
           then select (\<lambda>t. take limit (orderBy_desc alert_createdAt
                    (filter (\<lambda>r. alert_resolved r = False) (systemAlerts t)))) st'
           else select (\<lambda>t. take limit (orderBy_desc alert_createdAt (systemAlerts t))) st'))"

text \<open>
  The write helpers. \<open>data\<close> is the row to store, with the column defaults already filled
  in; \<open>updateActiveFlow\<close> takes the partial row as the update it performs on a row.
\<close>

definition insertTrafficLog :: "TrafficLog \<Rightarrow> DbModule \<Rightarrow> (error + ResultSetHeader option) \<times> DbModule" where
  "insertTrafficLog data st =
     (case getDb st of
        (None, st') \<Rightarrow> (Inr None, st')
      | (Some db, st') \<Rightarrow>
          (case statement (\<lambda>t. (\<lparr>affectedRows = 1\<rparr>, t\<lparr>trafficLogs := trafficLogs t @ [data]\<rparr>)) st' of
             (Inl e, st'') \<Rightarrow> (Inl e, st'')
           | (Inr result, st'') \<Rightarrow> (Inr (Some result), st'')))"

definition insertPrediction :: "Prediction \<Rightarrow> DbModule \<Rightarrow> (error + ResultSetHeader option) \<times> DbModule" where
  "insertPrediction data st =
     (case getDb st of
        (None, st') \<Rightarrow> (Inr None, st')
      | (Some db, st') \<Rightarrow>
          (case statement (\<lambda>t. (\<lparr>affectedRows = 1\<rparr>, t\<lparr>predictions := predictions t @ [data]\<rparr>)) st' of
             (Inl e, st'') \<Rightarrow> (Inl e, st'')
           | (Inr result, st'') \<Rightarrow> (Inr (Some result), st'')))"

definition insertActiveFlow :: "ActiveFlow \<Rightarrow> DbModule \<Rightarrow> (error + ResultSetHeader option) \<times> DbModule" where
  "insertActiveFlow data st =
     (case getDb st of
        (None, st') \<Rightarrow> (Inr None, st')
      | (Some db, st') \<Rightarrow>
          (case statement (\<lambda>t. (\<lparr>affectedRows = 1\<rparr>, t\<lparr>activeFlows := activeFlows t @ [data]\<rparr>)) st' of
             (Inl e, st'') \<Rightarrow> (Inl e, st'')
           | (Inr result, st'') \<Rightarrow> (Inr (Some result), st'')))"

definition updateActiveFlow :: "nat \<Rightarrow> (ActiveFlow \<Rightarrow> ActiveFlow) \<Rightarrow> DbModule \<Rightarrow> (error + ResultSetHeader option) \<times> DbModule" where
  "updateActiveFlow flowId data st =
     (case getDb st of
        (None, st') \<Rightarrow> (Inr None, st')
      | (Some db, st') \<Rightarrow>
          (case statement (\<lambda>t. (\<lparr>affectedRows = length (filter (\<lambda>r. flow_id r = flowId) (activeFlows t))\<rparr>,
                  t\<lparr>activeFlows := map (\<lambda>r. if flow_id r = flowId then data r else r) (activeFlows t)\<rparr>)) st' of
             (Inl e, st'') \<Rightarrow> (Inl e, st'')
           | (Inr result, st'') \<Rightarrow> (Inr (Some result), st'')))"

definition insertSystemAlert :: "SystemAlert \<Rightarrow> DbModule \<Rightarrow> (error + ResultSetHeader option) \<times> DbModule" where
  "insertSystemAlert data st =
     (case getDb st of
        (None, st') \<Rightarrow> (Inr None, st')
      | (Some db, st') \<Rightarrow>
          (case statement (\<lambda>t. (\<lparr>affectedRows = 1\<rparr>, t\<lparr>systemAlerts := systemAlerts t @ [data]\<rparr>)) st' of
             (Inl e, st'') \<Rightarrow> (Inl e, st'')
           | (Inr result, st'') \<Rightarrow> (Inr (Some result), st'')))"

record NetworkStats =
  stats_interfaces :: "NetworkInterface list"
  stats_flows :: "ActiveFlow list"
  stats_recentLogs :: "TrafficLog list"

definition getNetworkStats :: "DbModule \<Rightarrow> (error + NetworkStats option) \<times> DbModule" where
  "getNetworkStats st =
     (case getDb st of
        (None, st') \<Rightarrow> (Inr None, st')
      | (Some db, st') \<Rightarrow>
          (case select networkInterfaces st' of
             (Inl e, st1) \<Rightarrow> (Inl e, st1)
           | (Inr interfaces, st1) \<Rightarrow>
               (case select activeFlows st1 of
                  (Inl e, st2) \<Rightarrow> (Inl e, st2)
                | (Inr flows, st2) \<Rightarrow>
                    (case select (\<lambda>t. take 1000 (orderBy_desc log_timestamp (trafficLogs t))) st2 of
                       (Inl e, st3) \<Rightarrow> (Inl e, st3)
                     | (Inr recentLogs, st3) \<Rightarrow>
                         (Inr (Some \<lparr>stats_interfaces = interfaces, stats_flows = flows,
                                     stats_recentLogs = recentLogs\<rparr>), st3)))))"

section \<open>JavaScript values\<close>

text \<open>
  \<open>Set<string>\<close> keeps its members in insertion order and \<open>Array.from\<close> shows that
  order, so a set is a list without repetition: \<open>add\<close> of a member changes nothing,
  \<open>add\<close> of a new element appends it, \<open>delete\<close> removes the element if it is there.
\<close>

definition Set_add :: "'a \<Rightarrow> 'a list \<Rightarrow> 'a list" where
  "Set_add x xs = (if x \<in> set xs then xs else xs @ [x])"

definition Set_delete :: "'a \<Rightarrow> 'a list \<Rightarrow> 'a list" where
  "Set_delete x xs = removeAll x xs"

definition Set_has :: "'a \<Rightarrow> 'a list \<Rightarrow> bool" where
  "Set_has x xs = (x \<in> set xs)"

text \<open>
  A value sent in a message: a number, a string, or the string \<open>new Date(t).toISOString()\<close>
  of a time \<open>t\<close>. Numbers are exact rationals; \<open>JsExponential x\<close> is the string of a
  number of magnitude \<open>10^21\<close> or more, which JavaScript prints in exponent notation.
\<close>

datatype JsValue = JsNumber rat | JsString string | JsDate nat | JsExponential rat

definition digit :: "nat \<Rightarrow> char" where
  "digit d = ''0123456789'' ! d"

fun digits :: "nat \<Rightarrow> string" where
  "digits n = (if n < 10 then [digit n] else digits (n div 10) @ [digit (n mod 10)])"

declare digits.simps [simp del]

text \<open>
  \<open>Number.prototype.toFixed(2)\<close>: the sign, then the integer \<open>n\<close> for which
  \<open>n / 100\<close> is nearest to the magnitude (the larger \<open>n\<close> of two equally near), printed
  with two digits after the point.
\<close>

definition hundredths :: "rat \<Rightarrow> nat" where
  "hundredths x = nat \<lfloor>\<bar>x\<bar> * 100 + 1 / 2\<rfloor>"

definition toFixed2 :: "rat \<Rightarrow> JsValue" where
  "toFixed2 x =
     (if 10 ^ 21 \<le> \<bar>x\<bar> then JsExponential x
      else JsString ((if x < 0 then ''-'' else []) @ digits (hundredths x div 100) @ ''.'' @
                     [digit (hundredths x div 10 mod 10), digit (hundredths x mod 10)]))"





section \<open>The WebSocket manager (websocket.ts)\<close>

text \<open>
  A client is known by its socket id. What the server writes to a socket is recorded in
  \<open>delivered\<close>, in the order of the \<open>emit\<close> calls: the receiving socket, the event name
  and the payload. \<open>clients\<close> is a \<open>Map\<close>, an association list in insertion order.
\<close>

type_synonym HTTPServer = nat

record ClientConnection =
  conn_id :: string
  connectedAt :: nat
  subscriptions :: "string list"

record TypeStats =
  count :: nat
  avgThroughput :: JsValue

record UpdateStats =
  totalFlows :: nat
  totalPackets :: nat
  activeAlerts :: nat

datatype Payload =
    ConnectedMsg string nat
  | ChannelMsg string
  | TrafficUpdateMsg nat "TrafficLog list" "ActiveFlow list" "SystemAlert list" UpdateStats
  | TrafficByTypeMsg nat TypeStats TypeStats TypeStats TypeStats
  | ObjectMsg "(string \<times> JsValue) list"

type_synonym Delivery = "string \<times> string \<times> Payload"

record WebSocketManager =
  io_httpServer :: HTTPServer
  io_open :: bool
  clients :: "(string \<times> ClientConnection) list"
  updateInterval :: "nat option"
  timer_running :: bool
  updateIntervalMs :: nat
  delivered :: "Delivery list"
  console :: "string list"

definition socket_emit :: "string \<Rightarrow> string \<Rightarrow> Payload \<Rightarrow> WebSocketManager \<Rightarrow> WebSocketManager" where
  "socket_emit socketId event p m = m\<lparr>delivered := delivered m @ [(socketId, event, p)]\<rparr>"

text \<open>\<open>io.emit\<close> writes to every connected socket; those are the keys of \<open>clients\<close>.\<close>

definition io_emit :: "string \<Rightarrow> Payload \<Rightarrow> WebSocketManager \<Rightarrow> WebSocketManager" where
  "io_emit event p m = m\<lparr>delivered := delivered m @ map (\<lambda>c. (fst c, event, p)) (clients m)\<rparr>"

definition console_log :: "string \<Rightarrow> WebSocketManager \<Rightarrow> WebSocketManager" where
  "console_log line m = m\<lparr>console := console m @ [line]\<rparr>"

subsection \<open>setupConnections\<close>

text \<open>
  The handlers of one socket. An event of a socket reaches its handlers only while the
  socket is connected; the handlers of \<open>subscribe\<close> and \<open>unsubscribe\<close> change the
  \<open>subscriptions\<close> of the client object that \<open>clients\<close> holds for that socket.
\<close>

definition on_connection :: "nat \<Rightarrow> string \<Rightarrow> WebSocketManager \<Rightarrow> WebSocketManager" where
  "on_connection now socketId m =
     socket_emit socketId ''connected'' (ConnectedMsg socketId now)
       (console_log (''[WebSocket] Client connected: '' @ socketId)
          (m\<lparr>clients := AList.update socketId
                \<lparr>conn_id = socketId, connectedAt = now, subscriptions = []\<rparr> (clients m)\<rparr>))"

definition on_subscribe :: "string \<Rightarrow> string \<Rightarrow> WebSocketManager \<Rightarrow> WebSocketManager" where
  "on_subscribe channel socketId m =
     (case map_of (clients m) socketId of
        None \<Rightarrow> m
      | Some client \<Rightarrow>
          console_log (''[WebSocket] Client '' @ socketId @ '' subscribed to '' @ channel)
            (socket_emit socketId ''subscribed'' (ChannelMsg channel)
               (m\<lparr>clients := AList.update socketId
                     (client\<lparr>subscriptions := Set_add channel (subscriptions client)\<rparr>) (clients m)\<rparr>)))"

definition on_unsubscribe :: "string \<Rightarrow> string \<Rightarrow> WebSocketManager \<Rightarrow> WebSocketManager" where
  "on_unsubscribe channel socketId m =
     (case map_of (clients m) socketId of
        None \<Rightarrow> m
      | Some client \<Rightarrow>
          socket_emit socketId ''unsubscribed'' (ChannelMsg channel)
            (m\<lparr>clients := AList.update socketId
                  (client\<lparr>subscriptions := Set_delete channel (subscriptions client)\<rparr>) (clients m)\<rparr>))"

definition on_disconnect :: "string \<Rightarrow> WebSocketManager \<Rightarrow> WebSocketManager" where
  "on_disconnect socketId m =
     (case map_of (clients m) socketId of
        None \<Rightarrow> m
      | Some client \<Rightarrow>
          console_log (''[WebSocket] Client disconnected: '' @ socketId)
            (m\<lparr>clients := AList.delete socketId (clients m)\<rparr>))"

definition on_error :: "string \<Rightarrow> WebSocketManager \<Rightarrow> WebSocketManager" where
  "on_error socketId m =
     (case map_of (clients m) socketId of
        None \<Rightarrow> m
      | Some client \<Rightarrow> console_log (''[WebSocket] Error from '' @ socketId @ '':'') m)"

subsection \<open>startBroadcasting\<close>

text \<open>
  The timer callback. The four reads come first, one after the other, inside the \<open>try\<close>
  block; a read that rejects ends the block, and the \<open>catch\<close> clause writes one line to
  the console. \<open>now\<close> is the clock at the tick.
\<close>

record TickData =
  tick_trafficLogs :: "TrafficLog list"
  tick_activeFlows :: "ActiveFlow list"
  tick_alerts :: "SystemAlert list"
  tick_stats :: "NetworkStats option"

definition upstream_read :: "DbModule \<Rightarrow> (error + TickData) \<times> DbModule" where
  "upstream_read st =
     (case getTrafficLogs 100 0 st of
        (Inl e, st1) \<Rightarrow> (Inl e, st1)
      | (Inr logs, st1) \<Rightarrow>
          (case getActiveFlows st1 of
             (Inl e, st2) \<Rightarrow> (Inl e, st2)
           | (Inr flows, st2) \<Rightarrow>
               (case getSystemAlerts True 10 st2 of
                  (Inl e, st3) \<Rightarrow> (Inl e, st3)
                | (Inr alerts, st3) \<Rightarrow>
                    (case getNetworkStats st3 of
                       (Inl e, st4) \<Rightarrow> (Inl e, st4)
                     | (Inr stats, st4) \<Rightarrow>
                         (Inr \<lparr>tick_trafficLogs = logs, tick_activeFlows = flows,
                               tick_alerts = alerts, tick_stats = stats\<rparr>, st4)))))"

definition trafficUpdate :: "nat \<Rightarrow> TickData \<Rightarrow> Payload" where
  "trafficUpdate now d =
     TrafficUpdateMsg now (take 50 (tick_trafficLogs d)) (tick_activeFlows d) (tick_alerts d)
       \<lparr>totalFlows = length (tick_activeFlows d),
        totalPackets = foldl (\<lambda>sum log. sum + 1) 0 (tick_trafficLogs d),
        activeAlerts = length (tick_alerts d)\<rparr>"

text \<open>\<open>log.throughput || 0\<close>: a null throughput counts as 0.\<close>

definition throughput_or_0 :: "TrafficLog \<Rightarrow> rat" where
  "throughput_or_0 entry = (case log_throughput entry of None \<Rightarrow> 0 | Some t \<Rightarrow> t)"

definition typeStats :: "TrafficType \<Rightarrow> TrafficLog list \<Rightarrow> TypeStats" where
  "typeStats ty logs =
     (let traffic = filter (\<lambda>log. log_trafficType log = ty) logs
      in \<lparr>count = length traffic,
          avgThroughput =
            (if length traffic > 0
             then toFixed2 (foldl (\<lambda>sum log. sum + throughput_or_0 log) 0 traffic
                            / of_nat (length traffic))
             else JsNumber 0)\<rparr>)"

definition trafficByType :: "nat \<Rightarrow> TrafficLog list \<Rightarrow> Payload" where
  "trafficByType now logs =
     TrafficByTypeMsg now (typeStats Video logs) (typeStats Voice logs)
       (typeStats File logs) (typeStats Background logs)"

definition broadcastTick :: "nat \<Rightarrow> DbModule \<times> WebSocketManager \<Rightarrow> DbModule \<times> WebSocketManager" where
  "broadcastTick now w =
     (case upstream_read (fst w) of
        (Inl e, st') \<Rightarrow> (st', console_log ''[WebSocket] Broadcasting error:'' (snd w))
      | (Inr d, st') \<Rightarrow>
          (st', io_emit ''traffic-by-type'' (trafficByType now (tick_trafficLogs d))
                  (io_emit ''traffic-update'' (trafficUpdate now d) (snd w))))"

text \<open>The timer fires the callback as long as \<open>stop\<close> has not cleared it.\<close>

definition tick :: "nat \<Rightarrow> DbModule \<times> WebSocketManager \<Rightarrow> DbModule \<times> WebSocketManager" where
  "tick now w = (if timer_running (snd w) then broadcastTick now w else w)"

fun run_ticks :: "nat list \<Rightarrow> DbModule \<times> WebSocketManager \<Rightarrow> DbModule \<times> WebSocketManager" where
  "run_ticks [] w = w"
| "run_ticks (now # later) w = run_ticks later (tick now w)"

subsection \<open>broadcast, broadcastToSubscribers, getConnectedClients, stop\<close>

text \<open>
  The object \<open>{timestamp, ...data}\<close>: a key of \<open>data\<close> that is already there replaces the
  value and keeps the place, a new key is appended.
\<close>

definition spread :: "(string \<times> JsValue) list \<Rightarrow> (string \<times> JsValue) list \<Rightarrow> (string \<times> JsValue) list" where
  "spread data obj = foldl (\<lambda>acc kv. AList.update (fst kv) (snd kv) acc) obj data"

definition broadcast :: "nat \<Rightarrow> string \<Rightarrow> (string \<times> JsValue) list \<Rightarrow> WebSocketManager \<Rightarrow> WebSocketManager" where
  "broadcast now event data m =
     io_emit event (ObjectMsg (spread data [(''timestamp'', JsDate now)])) m"

fun broadcastLoop :: "nat \<Rightarrow> string \<Rightarrow> string \<Rightarrow> (string \<times> JsValue) list \<Rightarrow>
    (string \<times> ClientConnection) list \<Rightarrow> WebSocketManager \<Rightarrow> WebSocketManager" where
  "broadcastLoop now channel event data [] m = m"
| "broadcastLoop now channel event data (c # clientsArray) m =
     broadcastLoop now channel event data clientsArray
       (if Set_has channel (subscriptions (snd c))
        then socket_emit (fst c) event
               (ObjectMsg (spread data [(''timestamp'', JsDate now), (''channel'', JsString channel)])) m
        else m)"

definition broadcastToSubscribers :: "nat \<Rightarrow> string \<Rightarrow> string \<Rightarrow> (string \<times> JsValue) list \<Rightarrow>
    WebSocketManager \<Rightarrow> WebSocketManager" where
  "broadcastToSubscribers now channel event data m =
     broadcastLoop now channel event data (clients m) m"

definition getConnectedClients :: "WebSocketManager \<Rightarrow> (string \<times> nat \<times> string list) list" where
  "getConnectedClients m =
     map (\<lambda>c. (conn_id (snd c), connectedAt (snd c), subscriptions (snd c))) (clients m)"

text \<open>
  \<open>stop\<close> clears the timer and closes the server, which disconnects every socket.
\<close>

definition stop :: "WebSocketManager \<Rightarrow> WebSocketManager" where
  "stop m =
     (let m1 = (if updateInterval m \<noteq> None then m\<lparr>timer_running := False\<rparr> else m)
      in foldl (\<lambda>acc c. on_disconnect (fst c) acc) (m1\<lparr>io_open := False\<rparr>) (clients m1))"

subsection \<open>The module: constructor and singleton\<close>

text \<open>
  The constructor attaches a socket server to \<open>httpServer\<close>, registers the connection
  handler and starts the timer. Manager objects live in \<open>objects\<close>; a reference to one is
  its index there, so two references are the same instance when they are equal.
  \<open>wsManager\<close> is the module variable.
\<close>

definition new_WebSocketManager :: "HTTPServer \<Rightarrow> WebSocketManager" where
  "new_WebSocketManager httpServer =
     \<lparr>io_httpServer = httpServer, io_open = True, clients = [], updateInterval = Some 1000,
      timer_running = True, updateIntervalMs = 1000, delivered = [], console = []\<rparr>"

record WebSocketModule =
  wsManager :: "nat option"
  objects :: "WebSocketManager list"

definition module_loaded :: WebSocketModule where
  "module_loaded = \<lparr>wsManager = None, objects = []\<rparr>"

definition initializeWebSocket :: "HTTPServer \<Rightarrow> WebSocketModule \<Rightarrow> nat \<times> WebSocketModule" where
  "initializeWebSocket httpServer md =
     (case wsManager md of
        None \<Rightarrow>
          (length (objects md),
           md\<lparr>wsManager := Some (length (objects md)),
              objects := objects md @ [new_WebSocketManager httpServer]\<rparr>)
      | Some ref \<Rightarrow> (ref, md))"

definition getWebSocketManager :: "WebSocketModule \<Rightarrow> nat option" where
  "getWebSocketManager md = wsManager md"

section \<open>The allocation engine and rule management\<close>

text \<open>
  The bandwidth allocator (\<open>POST /allocate\<close>) and the rule store (\<open>POST /qos/rule\<close>)
  belong to the prediction service, whose code is not among the sources; the definitions
  of this section follow the specification (sections 3, 4.3, 6 and 7). Bandwidths are
  exact rationals, in Mbps.
\<close>

text \<open>
  Modelled from the spec: the entities \<open>QosRule\<close> and \<open>AllocationResult\<close> of section 3
  and the error kinds \<open>InvalidRule\<close> and negative budget of sections 4.3 and 7, as the
  missing allocator and rule store use them. A slot is a rule with the result that the
  allocator is building for it.
\<close>

record QosRule =
  trafficClass :: TrafficType
  priority :: int
  minBandwidthMbps :: rat
  maxBandwidthMbps :: rat
  dscp :: "int option"
  enabled :: bool

record AllocationResult =
  result_trafficClass :: TrafficType
  requestedMbps :: rat
  allocatedMbps :: rat
  satisfiedMin :: bool

datatype spec_error = InvalidRule | NegativeBudget

type_synonym Slot = "QosRule \<times> AllocationResult"

text \<open>
  Modelled from the spec: the canonical class order video, voice, file, background by
  which the missing \<open>allocate\<close> breaks ties between rules of equal priority (step 1).
\<close>

fun classRank :: "TrafficType \<Rightarrow> nat" where
  "classRank Video = 0"
| "classRank Voice = 1"
| "classRank File = 2"
| "classRank Background = 3"
| "classRank Unknown = 4"

text \<open>
  Modelled from the spec: step 1 of the missing \<open>allocate\<close>, the enabled rules sorted
  by priority descending, ties broken by the canonical class order.
\<close>

definition priorityOrder :: "QosRule list \<Rightarrow> QosRule list" where
  "priorityOrder rules = sort_key (\<lambda>r. (- priority r, classRank (trafficClass r))) (filter enabled rules)"

text \<open>
  Modelled from the spec: the demand that the missing \<open>allocate\<close> takes for a class,
  the entry of \<open>perClassDemand\<close> or, when the class has none, the rule's minimum.
\<close>

definition demandOf :: "(TrafficType \<rightharpoonup> rat) \<Rightarrow> QosRule \<Rightarrow> rat" where
  "demandOf perClassDemand r =
     (case perClassDemand (trafficClass r) of None \<Rightarrow> minBandwidthMbps r | Some d \<Rightarrow> d)"

text \<open>
  Modelled from the spec: pass 1 of the missing \<open>allocate\<close>. Each rule in priority
  order reserves \<open>min(minBandwidthMbps, remainingBudget)\<close>; \<open>satisfiedMin\<close> is false
  when the full minimum could not be reserved; the next rule goes on with what remains.
\<close>

fun pass1 :: "(TrafficType \<rightharpoonup> rat) \<Rightarrow> rat \<Rightarrow> QosRule list \<Rightarrow> Slot list \<times> rat" where
  "pass1 perClassDemand remainingBudget [] = ([], remainingBudget)"
| "pass1 perClassDemand remainingBudget (r # rs) =
     (let reserve = min (minBandwidthMbps r) remainingBudget;
          rest = pass1 perClassDemand (remainingBudget - reserve) rs
      in ((r, \<lparr>result_trafficClass = trafficClass r,
               requestedMbps = demandOf perClassDemand r,
               allocatedMbps = reserve,
               satisfiedMin = (minBandwidthMbps r \<le> remainingBudget)\<rparr>) # fst rest,
          snd rest))"

text \<open>
  Modelled from the spec: the growth step of passes 2 and 3 of the missing \<open>allocate\<close>.
  A class that takes part grows from what it holds toward its target, by no more than the
  remaining budget, and never shrinks; the classes are visited in priority order.
\<close>

fun grow :: "(Slot \<Rightarrow> rat option) \<Rightarrow> rat \<Rightarrow> Slot list \<Rightarrow> Slot list \<times> rat" where
  "grow target remainingBudget [] = ([], remainingBudget)"
| "grow target remainingBudget (s # ss) =
     (case target s of
        None \<Rightarrow> (let rest = grow target remainingBudget ss in (s # fst rest, snd rest))
      | Some t \<Rightarrow>
          (let growth = min (max 0 (t - allocatedMbps (snd s))) remainingBudget;
               rest = grow target (remainingBudget - growth) ss
           in ((fst s, (snd s)\<lparr>allocatedMbps := allocatedMbps (snd s) + growth\<rparr>) # fst rest,
               snd rest)))"

text \<open>
  Modelled from the spec: pass 2 of the missing \<open>allocate\<close>, the classes of priority 3
  grow toward \<open>demand \<times> 1.2\<close>, never above \<open>maxBandwidthMbps\<close>.
\<close>

definition pass2 :: "rat \<Rightarrow> Slot list \<Rightarrow> Slot list \<times> rat" where
  "pass2 = grow (\<lambda>s. if priority (fst s) = 3
                      then Some (min (requestedMbps (snd s) * (12 / 10)) (maxBandwidthMbps (fst s)))
                      else None)"

text \<open>
  Modelled from the spec: pass 3 of the missing \<open>allocate\<close>, the classes of priority 1
  are brought to \<open>min(demand, maxBandwidthMbps)\<close> as far as the remaining budget allows.
\<close>

definition pass3 :: "rat \<Rightarrow> Slot list \<Rightarrow> Slot list \<times> rat" where
  "pass3 = grow (\<lambda>s. if priority (fst s) = 1
                      then Some (min (requestedMbps (snd s)) (maxBandwidthMbps (fst s)))
                      else None)"

text \<open>
  Modelled from the spec: pass 4 of the missing \<open>allocate\<close>, the remaining budget is
  divided in equal shares among the classes of priority 0, each taking its share up to
  its \<open>maxBandwidthMbps\<close>.
\<close>

definition pass4 :: "rat \<Rightarrow> Slot list \<Rightarrow> Slot list" where
  "pass4 remainingBudget ss =
     (let n = length (filter (\<lambda>s. priority (fst s) = 0) ss)
      in if n = 0 then ss
         else map (\<lambda>s. if priority (fst s) = 0
                        then (fst s, (snd s)\<lparr>allocatedMbps := allocatedMbps (snd s) +
                               min (max 0 (maxBandwidthMbps (fst s) - allocatedMbps (snd s)))
                                   (remainingBudget / of_nat n)\<rparr>)
                        else s) ss)"

text \<open>
  Modelled from the spec: the results of the missing \<open>allocate\<close> for the classes that
  have a demand and no enabled rule; each is reported with an allocation of 0, in
  canonical class order, after the classes that have a rule.
\<close>

definition unruled :: "(TrafficType \<rightharpoonup> rat) \<Rightarrow> QosRule list \<Rightarrow> AllocationResult list" where
  "unruled perClassDemand rules =
     map (\<lambda>c. \<lparr>result_trafficClass = c, requestedMbps = the (perClassDemand c),
               allocatedMbps = 0, satisfiedMin = True\<rparr>)
       (filter (\<lambda>c. perClassDemand c \<noteq> None \<and> c \<notin> trafficClass ` set (filter enabled rules))
          [Video, Voice, File, Background, Unknown])"

text \<open>
  Modelled from the spec: \<open>allocate(perClassDemand, rules, totalBudget)\<close> of section 4.3,
  the allocator of the prediction service, which is missing from the sources. A negative
  budget fails at once; otherwise the four passes run in order.
\<close>

definition allocate :: "(TrafficType \<rightharpoonup> rat) \<Rightarrow> QosRule list \<Rightarrow> rat \<Rightarrow> spec_error + AllocationResult list" where
  "allocate perClassDemand rules totalBudget =
     (if totalBudget < 0 then Inl NegativeBudget
      else (let p1 = pass1 perClassDemand totalBudget (priorityOrder rules);
                p2 = pass2 (snd p1) (fst p1);
                p3 = pass3 (snd p2) (fst p2)
            in Inr (map snd (pass4 (snd p3) (fst p3)) @ unruled perClassDemand rules)))"



section \<open>Notions used to state the properties\<close>

text \<open>The events a socket has received, in order, and the subscriptions of a client.\<close>

definition received :: "string \<Rightarrow> WebSocketManager \<Rightarrow> string list" where
  "received socketId m = map (\<lambda>d. fst (snd d)) (filter (\<lambda>d. fst d = socketId) (delivered m))"

definition subscribed :: "string \<Rightarrow> (string \<times> ClientConnection) list \<Rightarrow> (string \<times> ClientConnection) list" where
  "subscribed channel cs = filter (\<lambda>c. Set_has channel (subscriptions (snd c))) cs"

definition toAll :: "string \<Rightarrow> Payload \<Rightarrow> (string \<times> ClientConnection) list \<Rightarrow> Delivery list" where
  "toAll event p cs = map (\<lambda>c. (fst c, event, p)) cs"




text \<open>Rule sets and demands that the properties of the allocator speak about.\<close>

definition validRules :: "QosRule list \<Rightarrow> bool" where
  "validRules rules = list_all (\<lambda>r. minBandwidthMbps r \<le> maxBandwidthMbps r) rules"

definition nonNegativeMinimums :: "QosRule list \<Rightarrow> bool" where
  "nonNegativeMinimums rules = list_all (\<lambda>r. 0 \<le> minBandwidthMbps r) rules"

definition nonNegativeDemand :: "(TrafficType \<rightharpoonup> rat) \<Rightarrow> bool" where
  "nonNegativeDemand perClassDemand =
     list_all (\<lambda>c. case perClassDemand c of None \<Rightarrow> True | Some d \<Rightarrow> 0 \<le> d)
       [Video, Voice, File, Background, Unknown]"

definition uniqueClasses :: "QosRule list \<Rightarrow> bool" where
  "uniqueClasses rules = distinct (map trafficClass rules)"


text \<open>What the slots hold together, and the part of a slot the later passes leave alone.\<close>

definition held :: "Slot list \<Rightarrow> rat" where
  "held ss = sum_list (map (\<lambda>s. allocatedMbps (snd s)) ss)"



section \<open>Example states\<close>

definition noTables :: Tables where
  "noTables = \<lparr>trafficLogs = [], predictions = [], qosRules = [], networkInterfaces = [],
               activeFlows = [], systemAlerts = []\<rparr>"

definition videoLog :: "nat \<Rightarrow> rat option \<Rightarrow> TrafficLog" where
  "videoLog n t =
     \<lparr>log_id = n, log_timestamp = n, log_sourceIp = ''10.0.0.1'', log_destinationIp = ''10.0.0.2'',
      log_sourcePort = Some 1935, log_destinationPort = Some 1935, log_protocol = ''TCP'',
      log_trafficType = Video, log_packetSize = 1500, log_throughput = t, log_priority = Some 3\<rparr>"

definition exampleLogs :: "TrafficLog list" where
  "exampleLogs = [videoLog 1 (Some 1), videoLog 2 None, videoLog 3 None]"

definition videoRow :: QosRuleRow where
  "videoRow = \<lparr>rule_id = 1, rule_trafficType = Video, rule_priority = 3, rule_minBandwidth = 5,
               rule_maxBandwidth = 50, rule_dscp = Some 46, rule_enabled = True\<rparr>"

definition backgroundRow :: QosRuleRow where
  "backgroundRow = \<lparr>rule_id = 2, rule_trafficType = Background, rule_priority = 0,
                    rule_minBandwidth = 0, rule_maxBandwidth = 20, rule_dscp = Some 0,
                    rule_enabled = True\<rparr>"

definition exampleAlert :: SystemAlert where
  "exampleAlert = \<lparr>alert_id = 1, alert_severity = Warning, alert_title = ''High usage'',
                   alert_message = ''Link above 90 percent'', alert_relatedFlowId = None,
                   alert_resolved = False, alert_createdAt = 5\<rparr>"

definition exampleTables :: Tables where
  "exampleTables = \<lparr>trafficLogs = exampleLogs, predictions = [], qosRules = [videoRow, backgroundRow],
                    networkInterfaces = [], activeFlows = [], systemAlerts = [exampleAlert]\<rparr>"

definition db_unconfigured :: DbModule where
  "db_unconfigured = \<lparr>db_instance = None, DATABASE_URL = None, drizzle = Some, mysql = exampleTables,
                      faults = []\<rparr>"

definition db_connected :: DbModule where
  "db_connected = \<lparr>db_instance = None, DATABASE_URL = Some ''mysql://monitor@localhost/network_monitor'',
                   drizzle = Some, mysql = exampleTables, faults = []\<rparr>"

definition db_failing :: DbModule where
  "db_failing = db_connected\<lparr>faults := [True]\<rparr>"

definition db_flaky :: DbModule where
  "db_flaky = db_connected\<lparr>faults := [False, False, False, False, False, False, True]\<rparr>"

definition alertsOnlyClient :: WebSocketManager where
  "alertsOnlyClient = on_subscribe ''alerts'' ''c1'' (on_connection 0 ''c1'' (new_WebSocketManager 8080))"

definition videoRule :: QosRule where
  "videoRule = \<lparr>trafficClass = Video, priority = 3, minBandwidthMbps = 5, maxBandwidthMbps = 50,
                dscp = Some 46, enabled = True\<rparr>"

definition voiceRule :: QosRule where
  "voiceRule = \<lparr>trafficClass = Voice, priority = 3, minBandwidthMbps = 1 / 10, maxBandwidthMbps = 10,
                dscp = Some 46, enabled = True\<rparr>"

definition fileRule :: QosRule where
  "fileRule = \<lparr>trafficClass = File, priority = 1, minBandwidthMbps = 1 / 2, maxBandwidthMbps = 30,
               dscp = Some 10, enabled = True\<rparr>"

definition backgroundRule :: QosRule where
  "backgroundRule = \<lparr>trafficClass = Background, priority = 0, minBandwidthMbps = 0,
                     maxBandwidthMbps = 20, dscp = Some 0, enabled = True\<rparr>"

definition defaultRules :: "QosRule list" where
  "defaultRules = [backgroundRule, fileRule, voiceRule, videoRule]"

definition scenarioDemand :: "TrafficType \<rightharpoonup> rat" where
  "scenarioDemand = [Video \<mapsto> 40, Voice \<mapsto> 2, File \<mapsto> 25, Background \<mapsto> 30]"

definition result :: "TrafficType \<Rightarrow> rat \<Rightarrow> rat \<Rightarrow> bool \<Rightarrow> AllocationResult" where
  "result c requested allocated ok =
     \<lparr>result_trafficClass = c, requestedMbps = requested, allocatedMbps = allocated, satisfiedMin = ok\<rparr>"



section \<open>The database helpers\<close>

lemma getDb_unavailable: "fst (getDb st) = None \<Longrightarrow> getDb st = (None, st)"
  by (cases st) (auto simp: getDb_def Let_def split: if_splits)

lemma getDb_mysql: "getDb st = (h, st') \<Longrightarrow> mysql st' = mysql st"
  by (auto simp: getDb_def Let_def split: if_splits)

lemma select_result: "select q st = (Inr rows, st') \<Longrightarrow> rows = q (mysql st) \<and> mysql st' = mysql st"
  by (cases st) (auto simp: select_def statement_def split: list.splits if_splits)

text \<open>
  C10. Whenever the database handle is unavailable (\<open>getDb\<close> returns null), each of the
  seven query helpers returns the empty list and each of the five write helpers returns
  null; none of them raises, and the module state, the stored tables included, is what it
  was before the call.
\<close>

theorem helpers_without_database:
  assumes "fst (getDb st) = None"
  shows "getTrafficLogs limit offset st = (Inr [], st) \<and>
         getActiveFlows st = (Inr [], st) \<and>
         getTrafficByType ty st = (Inr [], st) \<and>
         getPredictions optionalType limit st = (Inr [], st) \<and>
         getQosRules st = (Inr [], st) \<and>
         getNetworkInterfaces st = (Inr [], st) \<and>
         getSystemAlerts unresolved limit st = (Inr [], st) \<and>
         insertTrafficLog logData st = (Inr None, st) \<and>
         insertPrediction predictionData st = (Inr None, st) \<and>
         insertActiveFlow flowData st = (Inr None, st) \<and>
         updateActiveFlow flowId partialData st = (Inr None, st) \<and>
         insertSystemAlert alertData st = (Inr None, st)"
  using getDb_unavailable [OF assms]
  by (simp add: getTrafficLogs_def getActiveFlows_def getTrafficByType_def getPredictions_def
      getQosRules_def getNetworkInterfaces_def getSystemAlerts_def insertTrafficLog_def
      insertPrediction_def insertActiveFlow_def updateActiveFlow_def insertSystemAlert_def)

text \<open>
  A process started without \<open>DATABASE_URL\<close>: the handle is null, the helpers answer with
  the empty list and null, and the tables of the server stay as they are.
\<close>

theorem helpers_without_database_witness:
  "fst (getDb db_unconfigured) = None \<and>
   getTrafficLogs 100 0 db_unconfigured = (Inr [], db_unconfigured) \<and>
   getQosRules db_unconfigured = (Inr [], db_unconfigured) \<and>
   insertSystemAlert exampleAlert db_unconfigured = (Inr None, db_unconfigured) \<and>
   mysql db_unconfigured = exampleTables"
proof -
  have h: "fst (getDb db_unconfigured) = None"
    by (simp add: getDb_def db_unconfigured_def)
  from helpers_without_database [OF h, where limit = 100 and offset = 0 and alertData = exampleAlert] h
  show ?thesis by (simp add: db_unconfigured_def)
qed

text \<open>
  C5, as the code has it. \<open>getRules\<close> is \<open>getQosRules\<close>, whose query is
  \<open>orderBy(qosRules.priority)\<close> without \<open>desc\<close>: the rules come back ordered by
  priority ascending (priorities are non-decreasing along the returned list, the first
  rule has the least priority), and with a database they are the stored rules, each once.
\<close>

theorem getQosRules_ascending:
  assumes "getQosRules st = (Inr rules, st')"
  shows "sorted (map rule_priority rules) \<and>
         (fst (getDb st) \<noteq> None \<longrightarrow>
            set rules = set (qosRules (mysql st)) \<and> length rules = length (qosRules (mysql st)))"
proof (cases "getDb st")
  case (Pair h st1)
  show ?thesis
  proof (cases h)
    case None
    with Pair assms show ?thesis by (simp add: getQosRules_def)
  next
    case (Some db)
    with Pair assms have "select (\<lambda>t. orderBy rule_priority (qosRules t)) st1 = (Inr rules, st')"
      by (simp add: getQosRules_def)
    from select_result [OF this] getDb_mysql [OF Pair]
    show ?thesis by (simp add: orderBy_def)
  qed
qed

lemma getQosRules_example:
  "getQosRules db_connected =
     (Inr [backgroundRow, videoRow],
      db_connected\<lparr>db_instance := Some ''mysql://monitor@localhost/network_monitor''\<rparr>)"
  by (simp add: getQosRules_def getDb_def db_connected_def select_def statement_def orderBy_def
      exampleTables_def videoRow_def backgroundRow_def Let_def)

theorem getQosRules_ascending_witness:
  "fst (getDb db_connected) \<noteq> None \<and>
   fst (getQosRules db_connected) = Inr [backgroundRow, videoRow] \<and>
   sorted (map rule_priority [backgroundRow, videoRow]) \<and>
   set [backgroundRow, videoRow] = set (qosRules (mysql db_connected))"
proof -
  have h: "fst (getDb db_connected) \<noteq> None"
    by (simp add: getDb_def db_connected_def Let_def)
  from getQosRules_ascending [OF getQosRules_example] h getQosRules_example
  show ?thesis by simp
qed

text \<open>
  With the video rule (priority 3) and the background rule (priority 0) stored, the first
  rule returned is the background rule: the order is not descending.
\<close>

theorem getQosRules_not_descending:
  "fst (getQosRules db_connected) = Inr [backgroundRow, videoRow] \<and>
   rule_priority backgroundRow = 0 \<and> rule_priority videoRow = 3 \<and>
   rule_priority backgroundRow < rule_priority videoRow"
  by (simp add: getQosRules_example videoRow_def backgroundRow_def)

section \<open>The singleton manager\<close>

text \<open>
  C9. \<open>initializeWebSocket\<close> initialises once: before the first call
  \<open>getWebSocketManager\<close> returns null; the first call constructs a new manager on its
  \<open>httpServer\<close> and stores it; after that \<open>getWebSocketManager\<close> returns that
  manager, and a later call with any other server returns the same instance and leaves
  the module as it is, so the same holds for every call that follows.
\<close>

theorem initializeWebSocket_singleton:
  assumes "wsManager md = None" and "initializeWebSocket httpServer md = (m, md')"
  shows "getWebSocketManager md = None \<and>
         m = length (objects md) \<and>
         objects md' = objects md @ [new_WebSocketManager httpServer] \<and>
         getWebSocketManager md' = Some m \<and>
         initializeWebSocket otherServer md' = (m, md') \<and>
         getWebSocketManager (snd (initializeWebSocket otherServer md')) = Some m"
  using assms by (auto simp: initializeWebSocket_def getWebSocketManager_def)

text \<open>
  From the freshly loaded module: the call for the server on port 8080 creates object 0,
  and the call for the server on port 9090 returns object 0, still attached to 8080.
\<close>

theorem initializeWebSocket_singleton_witness:
  "wsManager module_loaded = None \<and>
   initializeWebSocket 8080 module_loaded
     = (0, \<lparr>wsManager = Some 0, objects = [new_WebSocketManager 8080]\<rparr>) \<and>
   getWebSocketManager module_loaded = None \<and>
   initializeWebSocket 9090 \<lparr>wsManager = Some 0, objects = [new_WebSocketManager 8080]\<rparr>
     = (0, \<lparr>wsManager = Some 0, objects = [new_WebSocketManager 8080]\<rparr>) \<and>
   getWebSocketManager \<lparr>wsManager = Some 0, objects = [new_WebSocketManager 8080]\<rparr> = Some 0"
proof -
  have a: "wsManager module_loaded = None" by (simp add: module_loaded_def)
  have b: "initializeWebSocket 8080 module_loaded
     = (0, \<lparr>wsManager = Some 0, objects = [new_WebSocketManager 8080]\<rparr>)"
    by (simp add: initializeWebSocket_def module_loaded_def)
  from initializeWebSocket_singleton [OF a b, of 9090] a b show ?thesis by simp
qed

section \<open>Subscriptions\<close>

lemma Set_add_idem: "Set_add x (Set_add x xs) = Set_add x xs"
  by (simp add: Set_add_def)

lemma alertsOnlyClient_clients:
  "clients alertsOnlyClient =
     [(''c1'', \<lparr>conn_id = ''c1'', connectedAt = 0, subscriptions = [''alerts'']\<rparr>)]"
  by (simp add: alertsOnlyClient_def on_subscribe_def on_connection_def new_WebSocketManager_def
      console_log_def socket_emit_def Set_add_def)

lemma timer_alertsOnlyClient: "timer_running alertsOnlyClient"
  by (simp add: alertsOnlyClient_def on_subscribe_def on_connection_def new_WebSocketManager_def
      console_log_def socket_emit_def)

text \<open>
  C6. For a connected client and any channel, subscribing twice leaves the clients, and so
  the subscription set of that client, exactly as subscribing once does; unsubscribing
  from a channel that is not in the client's subscription set leaves every subscription
  set unchanged. The handlers are total: none of them raises.
\<close>

theorem subscribe_idempotent:
  assumes "map_of (clients m) socketId = Some client"
  shows "clients (on_subscribe channel socketId (on_subscribe channel socketId m))
           = clients (on_subscribe channel socketId m) \<and>
         (other \<notin> set (subscriptions client) \<longrightarrow>
            clients (on_unsubscribe other socketId m) = clients m)"
  using assms
  by (simp add: on_subscribe_def on_unsubscribe_def console_log_def socket_emit_def
      update_conv' Set_add_idem Set_delete_def AList.update_triv)

text \<open>
  The client \<open>c1\<close> holds the subscription \<open>alerts\<close>: subscribing to \<open>alerts\<close> again
  twice or once gives the same clients, and unsubscribing from \<open>traffic\<close> changes nothing.
\<close>

theorem subscribe_idempotent_witness:
  "map_of (clients alertsOnlyClient) ''c1''
     = Some \<lparr>conn_id = ''c1'', connectedAt = 0, subscriptions = [''alerts'']\<rparr> \<and>
   ''traffic'' \<notin> set [''alerts''] \<and>
   getConnectedClients (on_subscribe ''alerts'' ''c1'' (on_subscribe ''alerts'' ''c1'' alertsOnlyClient))
     = getConnectedClients (on_subscribe ''alerts'' ''c1'' alertsOnlyClient) \<and>
   getConnectedClients (on_unsubscribe ''traffic'' ''c1'' alertsOnlyClient)
     = [(''c1'', 0, [''alerts''])]"
proof -
  have a: "map_of (clients alertsOnlyClient) ''c1''
     = Some \<lparr>conn_id = ''c1'', connectedAt = 0, subscriptions = [''alerts'']\<rparr>"
    by (simp add: alertsOnlyClient_clients)
  from subscribe_idempotent [OF a, of "''alerts''" "''traffic''"] a
  show ?thesis by (simp add: getConnectedClients_def alertsOnlyClient_clients)
qed

section \<open>The broadcast tick\<close>

lemma broadcastLoop_delivered:
  "delivered (broadcastLoop now channel event data cs m) =
     delivered m @ toAll event
       (ObjectMsg (spread data [(''timestamp'', JsDate now), (''channel'', JsString channel)]))
       (subscribed channel cs)"
  by (induction cs arbitrary: m) (simp_all add: toAll_def subscribed_def socket_emit_def)

lemma read_unconfigured:
  "upstream_read db_unconfigured =
     (Inr \<lparr>tick_trafficLogs = [], tick_activeFlows = [], tick_alerts = [], tick_stats = None\<rparr>,
      db_unconfigured)"
  by (simp add: upstream_read_def getTrafficLogs_def getActiveFlows_def getSystemAlerts_def
      getNetworkStats_def getDb_def db_unconfigured_def)

lemma read_failing:
  "upstream_read db_failing =
     (Inl QueryFailed,
      db_failing\<lparr>db_instance := Some ''mysql://monitor@localhost/network_monitor'', faults := []\<rparr>)"
  by (simp add: upstream_read_def getTrafficLogs_def getDb_def db_failing_def db_connected_def
      select_def statement_def Let_def)

text \<open>
  C2, as the code has it. On a tick whose reads succeed, \<open>traffic-update\<close> and then
  \<open>traffic-by-type\<close> are written with \<open>io.emit\<close> to every connected client, whatever
  its subscriptions are, and the tick sends nothing else (no allocation message). The
  subscriptions are looked at by \<open>broadcastToSubscribers\<close> only, which writes its event
  to exactly the connected clients whose subscription set has the channel.
\<close>

theorem tick_reaches_every_client:
  assumes "timer_running m" and "upstream_read st = (Inr d, st')"
  shows "delivered (snd (tick now (st, m))) =
           delivered m @ toAll ''traffic-update'' (trafficUpdate now d) (clients m)
                       @ toAll ''traffic-by-type'' (trafficByType now (tick_trafficLogs d)) (clients m) \<and>
         delivered (broadcastToSubscribers now channel event data m) =
           delivered m @ toAll event
             (ObjectMsg (spread data [(''timestamp'', JsDate now), (''channel'', JsString channel)]))
             (subscribed channel (clients m))"
  using assms
  by (simp add: tick_def broadcastTick_def io_emit_def toAll_def [symmetric]
      broadcastToSubscribers_def broadcastLoop_delivered)

theorem tick_reaches_every_client_witness:
  "timer_running alertsOnlyClient \<and>
   fst (upstream_read db_unconfigured) =
     Inr \<lparr>tick_trafficLogs = [], tick_activeFlows = [], tick_alerts = [], tick_stats = None\<rparr> \<and>
   received ''c1'' (snd (tick 1000 (db_unconfigured, alertsOnlyClient)))
     = received ''c1'' alertsOnlyClient @ [''traffic-update'', ''traffic-by-type''] \<and>
   received ''c1'' (broadcastToSubscribers 1000 ''traffic'' ''traffic-update'' [] alertsOnlyClient)
     = received ''c1'' alertsOnlyClient \<and>
   received ''c1'' (broadcastToSubscribers 1000 ''alerts'' ''alert'' [] alertsOnlyClient)
     = received ''c1'' alertsOnlyClient @ [''alert'']"
  using tick_reaches_every_client [OF timer_alertsOnlyClient read_unconfigured,
      of 1000 "''traffic''" "''traffic-update''" "[]"]
    tick_reaches_every_client [OF timer_alertsOnlyClient read_unconfigured,
      of 1000 "''alerts''" "''alert''" "[]"]
  by (simp add: timer_alertsOnlyClient read_unconfigured received_def toAll_def subscribed_def
      Set_has_def alertsOnlyClient_clients)

text \<open>
  The client \<open>c1\<close> has subscribed to \<open>alerts\<close> and to nothing else; the next tick
  delivers \<open>traffic-update\<close> and \<open>traffic-by-type\<close> to it.
\<close>

theorem tick_ignores_subscriptions:
  "getConnectedClients alertsOnlyClient = [(''c1'', 0, [''alerts''])] \<and>
   received ''c1'' alertsOnlyClient = [''connected'', ''subscribed''] \<and>
   received ''c1'' (snd (tick 1000 (db_connected, alertsOnlyClient)))
     = [''connected'', ''subscribed'', ''traffic-update'', ''traffic-by-type'']"
  by code_simp

text \<open>
  C3, as the code has it. On a tick in which a read rejects, the loop neither stops nor
  raises: the error is caught and one line is written to the console; the tick delivers
  no message at all (neither the statistics of the tick before nor an alert), the clients
  are unchanged, the timer keeps running, and the later ticks run from that state.
\<close>

theorem failed_read_tick:
  assumes "timer_running m" and "upstream_read st = (Inl e, st')"
  shows "tick now (st, m) = (st', m\<lparr>console := console m @ [''[WebSocket] Broadcasting error:'']\<rparr>) \<and>
         delivered (snd (tick now (st, m))) = delivered m \<and>
         clients (snd (tick now (st, m))) = clients m \<and>
         timer_running (snd (tick now (st, m))) \<and>
         run_ticks (now # later) (st, m)
           = run_ticks later (st', m\<lparr>console := console m @ [''[WebSocket] Broadcasting error:'']\<rparr>)"
  using assms by (simp add: tick_def broadcastTick_def console_log_def)

theorem failed_read_tick_witness:
  "timer_running alertsOnlyClient \<and>
   fst (upstream_read db_failing) = Inl QueryFailed \<and>
   received ''c1'' (snd (tick 1000 (db_failing, alertsOnlyClient))) = received ''c1'' alertsOnlyClient \<and>
   timer_running (snd (tick 1000 (db_failing, alertsOnlyClient))) \<and>
   received ''c1'' (snd (run_ticks [1000, 2000] (db_failing, alertsOnlyClient)))
     = received ''c1'' alertsOnlyClient @ [''traffic-update'', ''traffic-by-type'']"
proof -
  have later: "received ''c1'' (snd (run_ticks [2000]
      (db_failing\<lparr>db_instance := Some ''mysql://monitor@localhost/network_monitor'', faults := []\<rparr>,
       alertsOnlyClient\<lparr>console := console alertsOnlyClient @ [''[WebSocket] Broadcasting error:'']\<rparr>)))
     = received ''c1'' alertsOnlyClient @ [''traffic-update'', ''traffic-by-type'']"
    by code_simp
  from failed_read_tick [OF timer_alertsOnlyClient read_failing, of 1000 "[2000]"] later
  show ?thesis by (simp add: timer_alertsOnlyClient read_failing received_def)
qed

text \<open>
  A first tick succeeds and delivers its two messages; the first read of the second tick
  rejects, and the second tick delivers nothing: what the client has received after both
  ticks is what it had received after the first.
\<close>

theorem failed_tick_sends_nothing:
  "received ''c1'' (snd (run_ticks [1000] (db_flaky, alertsOnlyClient)))
     = [''connected'', ''subscribed'', ''traffic-update'', ''traffic-by-type''] \<and>
   fst (upstream_read (fst (run_ticks [1000] (db_flaky, alertsOnlyClient)))) = Inl QueryFailed \<and>
   received ''c1'' (snd (run_ticks [1000, 2000] (db_flaky, alertsOnlyClient)))
     = [''connected'', ''subscribed'', ''traffic-update'', ''traffic-by-type''] \<and>
   delivered (snd (run_ticks [1000, 2000] (db_flaky, alertsOnlyClient)))
     = delivered (snd (run_ticks [1000] (db_flaky, alertsOnlyClient)))"
  by code_simp

section \<open>The statistics per traffic class\<close>























section \<open>The allocation engine\<close>

lemma held_simps [simp]: "held [] = 0" "held (s # ss) = allocatedMbps (snd s) + held ss"
  by (simp_all add: held_def)

lemma pass1_held: "held (fst (pass1 dem b rs)) + snd (pass1 dem b rs) = b"
proof (induction rs arbitrary: b)
  case Nil
  show ?case by simp
next
  case (Cons r rs)
  from Cons [of "b - min (minBandwidthMbps r) b"] show ?case
    by (simp add: Let_def)
qed

lemma pass1_nonneg: "0 \<le> b \<Longrightarrow> 0 \<le> snd (pass1 dem b rs)"
  by (induction rs arbitrary: b) (simp_all add: Let_def)

lemma grow_held: "held (fst (grow t b ss)) + snd (grow t b ss) = held ss + b"
proof (induction ss arbitrary: b)
  case Nil
  show ?case by simp
next
  case (Cons s ss)
  show ?case
  proof (cases "t s")
    case None
    with Cons [of b] show ?thesis by (simp add: Let_def)
  next
    case (Some x)
    with Cons [of "b - min (max 0 (x - allocatedMbps (snd s))) b"] show ?thesis
      by (simp add: Let_def)
  qed
qed

lemma grow_nonneg: "0 \<le> b \<Longrightarrow> 0 \<le> snd (grow t b ss)"
proof (induction ss arbitrary: b)
  case Nil
  then show ?case by simp
next
  case (Cons s ss)
  show ?case
  proof (cases "t s")
    case None
    with Cons show ?thesis by (simp add: Let_def)
  next
    case (Some x)
    have "0 \<le> b - min (max 0 (x - allocatedMbps (snd s))) b" by simp
    from Cons.IH [OF this] Some show ?thesis by (simp add: Let_def)
  qed
qed

lemma share_held:
  "0 \<le> share \<Longrightarrow>
   held (map (\<lambda>s. if P s then (fst s, (snd s)\<lparr>allocatedMbps := allocatedMbps (snd s) + min (cap s) share\<rparr>) else s) ss)
     \<le> held ss + of_nat (length (filter P ss)) * share"
proof (induction ss)
  case Nil
  show ?case by simp
next
  case (Cons s ss)
  have "min (cap s) share \<le> share" by simp
  with Cons show ?case by (auto simp: algebra_simps)
qed

lemma pass4_held: "0 \<le> b \<Longrightarrow> held (pass4 b ss) \<le> held ss + b"
proof -
  assume b: "0 \<le> b"
  let ?n = "length (filter (\<lambda>s. priority (fst s) = 0) ss)"
  show ?thesis
  proof (cases "?n = 0")
    case True
    with b show ?thesis by (simp add: pass4_def Let_def)
  next
    case False
    from b have "0 \<le> b / of_nat ?n" by simp
    from share_held [OF this, of "\<lambda>s. priority (fst s) = 0" "\<lambda>s. max 0 (maxBandwidthMbps (fst s) - allocatedMbps (snd s))" ss]
    show ?thesis using False by (simp add: pass4_def Let_def)
  qed
qed

lemma unruled_total: "sum_list (map allocatedMbps (unruled dem rules)) = 0"
  by (simp add: unruled_def comp_def)

lemma allocate_total:
  assumes "0 \<le> budget"
  shows "\<exists>results. allocate dem rules budget = Inr results \<and> sum_list (map allocatedMbps results) \<le> budget"
proof -
  let ?p1 = "pass1 dem budget (priorityOrder rules)"
  let ?p2 = "pass2 (snd ?p1) (fst ?p1)"
  let ?p3 = "pass3 (snd ?p2) (fst ?p2)"
  let ?p4 = "pass4 (snd ?p3) (fst ?p3)"
  have h1: "held (fst ?p1) + snd ?p1 = budget" by (rule pass1_held)
  have n1: "0 \<le> snd ?p1" using assms by (rule pass1_nonneg)
  have h2: "held (fst ?p2) + snd ?p2 = held (fst ?p1) + snd ?p1"
    unfolding pass2_def by (rule grow_held)
  have n2: "0 \<le> snd ?p2" unfolding pass2_def using n1 by (rule grow_nonneg)
  have h3: "held (fst ?p3) + snd ?p3 = held (fst ?p2) + snd ?p2"
    unfolding pass3_def by (rule grow_held)
  have n3: "0 \<le> snd ?p3" unfolding pass3_def using n2 by (rule grow_nonneg)
  have h4: "held ?p4 \<le> held (fst ?p3) + snd ?p3" using n3 by (rule pass4_held)
  have "held ?p4 \<le> budget" using h1 h2 h3 h4 by linarith
  moreover have "sum_list (map allocatedMbps (map snd ?p4)) = held ?p4"
    by (simp add: held_def comp_def)
  moreover have "allocate dem rules budget = Inr (map snd ?p4 @ unruled dem rules)"
    using assms by (simp add: allocate_def Let_def)
  ultimately show ?thesis by (simp add: unruled_total)
qed
















lemma defaultRules_valid:
  "validRules defaultRules" "nonNegativeMinimums defaultRules"
  "uniqueClasses (filter enabled defaultRules)" "nonNegativeDemand scenarioDemand"
  by (simp_all add: validRules_def nonNegativeMinimums_def uniqueClasses_def nonNegativeDemand_def
      defaultRules_def backgroundRule_def fileRule_def voiceRule_def videoRule_def scenarioDemand_def)

text \<open>
  C1. For every rule set whose rules have \<open>minBandwidthMbps \<le> maxBandwidthMbps\<close>, every
  map of non-negative demands and every non-negative budget, \<open>allocate\<close> returns a list
  of results, and the sum of their \<open>allocatedMbps\<close> is at most the budget.
\<close>

theorem budget_conservation:
  assumes "validRules rules" and "nonNegativeDemand perClassDemand" and "0 \<le> totalBudget"
  shows "\<exists>results. allocate perClassDemand rules totalBudget = Inr results \<and>
           sum_list (map allocatedMbps results) \<le> totalBudget"
  using assms(3) by (rule allocate_total)

theorem budget_conservation_witness:
  "validRules defaultRules \<and> nonNegativeDemand scenarioDemand \<and> (0::rat) \<le> 100 \<and>
   (\<exists>results. allocate scenarioDemand defaultRules 100 = Inr results \<and>
      sum_list (map allocatedMbps results) \<le> 100)"
proof -
  have "(0::rat) \<le> 100" by simp
  from budget_conservation [OF defaultRules_valid(1) defaultRules_valid(4) this] defaultRules_valid
  show ?thesis by simp
qed




section \<open>Rule management\<close>







end
